theory Spec2Isabelle
  imports Main "HOL-Library.Word" "HOL-Library.Code_Target_Nat"
begin

unbundle bit_operations_syntax

section \<open>GNRC network interface adaption for ESP-NOW\<close>

text \<open>
  The two operations of the adaption layer, \<^verbatim>\<open>_send\<close> and \<^verbatim>\<open>_recv\<close>, embedded as
  HOL functions. An identifier cannot start with an underscore here, so they are called
  \<open>esp_now_send\<close> and \<open>esp_now_recv\<close>. What the C code gets from headers that are not
  among the source files (errno values, flag bits, the size of the generic netif header,
  whether the 6LoWPAN module is compiled in) is collected in the record \<open>platform\<close>; the
  general results hold for all its values. The chain given to \<^verbatim>\<open>_send\<close> is never the
  null pointer (the assertion of line 39).
\<close>

subsection \<open>Data\<close>

type_synonym u8 = "8 word"

datatype gnrc_nettype =
    GNRC_NETTYPE_NETIF
  | GNRC_NETTYPE_UNDEF
  | GNRC_NETTYPE_SIXLOWPAN
  | GNRC_NETTYPE_OTHER nat

record platform =
  EBADMSG :: int
  GNRC_NETIF_HDR_FLAGS_BROADCAST :: u8
  GNRC_NETIF_HDR_FLAGS_MULTICAST :: u8
  MODULE_GNRC_SIXLOWPAN :: bool
  sizeof_gnrc_netif_hdr :: nat

text \<open>\<^verbatim>\<open>ESP_NOW_MAX_SIZE_RAW\<close>, \<^verbatim>\<open>ESP_NOW_HEADER_LENGTH\<close> (the size of the packed
  one-byte \<^verbatim>\<open>esp_now_pkt_hdr_t\<close>) and \<^verbatim>\<open>ESP_NOW_MAX_SIZE\<close>.\<close>

definition ESP_NOW_MAX_SIZE_RAW :: nat where
  "ESP_NOW_MAX_SIZE_RAW = 250"

definition ESP_NOW_HEADER_LENGTH :: nat where
  "ESP_NOW_HEADER_LENGTH = 1"

definition ESP_NOW_MAX_SIZE :: nat where
  "ESP_NOW_MAX_SIZE = ESP_NOW_MAX_SIZE_RAW - ESP_NOW_HEADER_LENGTH"

text \<open>Modelled from the spec: \<^verbatim>\<open>ETHERNET_ADDR_LEN\<close>, which \<^verbatim>\<open>ESP_NOW_ADDR_LEN\<close> is defined
  as, is declared outside the source files; hardware addresses are 6 bytes long.\<close>

definition ESP_NOW_ADDR_LEN :: nat where
  "ESP_NOW_ADDR_LEN = 6"

text \<open>\<^verbatim>\<open>esp_now_pkt_t\<close>: the packed buffer (header flags and \<^verbatim>\<open>data[ESP_NOW_MAX_SIZE]\<close>),
  the length byte and the address.\<close>

record esp_now_pkt =
  buf_hdr_flags :: u8
  buf_data :: "u8 list"
  len :: u8
  mac :: "u8 list"

text \<open>Modelled from the spec: \<^verbatim>\<open>gnrc_netif_hdr_t\<close> is declared outside the source files.
  The link-layer metadata carries flags and source and destination addresses of declared
  lengths; \<open>hdr_addrs\<close> is the memory of the segment behind the structure, where the source
  address and then the destination address are stored.\<close>

record gnrc_netif_hdr =
  src_l2addr_len :: u8
  dst_l2addr_len :: u8
  if_pid :: int
  flags :: u8
  hdr_addrs :: "u8 list"

text \<open>A payload segment (\<^verbatim>\<open>gnrc_pktsnip_t\<close>): its type and its data; \<^verbatim>\<open>size\<close> is the
  number of data bytes.\<close>

record gnrc_pktsnip =
  snip_type :: gnrc_nettype
  snip_data :: "u8 list"

definition snip_size :: "gnrc_pktsnip \<Rightarrow> nat" where
  "snip_size s = length (snip_data s)"

text \<open>The chain handed to \<^verbatim>\<open>_send\<close>: the first segment, of which the code reads the type
  and, through a cast of its data pointer, a generic netif header; and the segments
  reached through \<^verbatim>\<open>next\<close>, the empty list being the null pointer.\<close>

record outbound =
  pkt_type :: gnrc_nettype
  pkt_hdr :: gnrc_netif_hdr
  pkt_next :: "gnrc_pktsnip list"

text \<open>What C leaves undefined and the model makes a result: reading through a null
  pointer, writing behind the end of an array, reading behind the end of a segment.\<close>

datatype fault = NullDeref | BufferOverflow | OutOfBoundsRead

text \<open>What a call of \<^verbatim>\<open>_send\<close> did: the value returned, whether
  \<^verbatim>\<open>gnrc_pktbuf_release(pkt)\<close> (which frees every segment of the chain) was called, and
  the frame passed to the driver's \<^verbatim>\<open>send\<close>, if it was called.\<close>

record send_result =
  ret :: int
  released :: bool
  sent :: "esp_now_pkt option"

subsection \<open>Memory operations\<close>

definition memcpy :: "u8 list \<Rightarrow> nat \<Rightarrow> u8 list \<Rightarrow> fault + u8 list" where
  "memcpy dst pos src =
     (if pos + length src > length dst then Inl BufferOverflow
      else Inr (take pos dst @ src @ drop (pos + length src) dst))"

definition read_bytes :: "u8 list \<Rightarrow> nat \<Rightarrow> fault + u8 list" where
  "read_bytes src n = (if length src < n then Inl OutOfBoundsRead else Inr (take n src))"

text \<open>Modelled from the spec: \<^verbatim>\<open>gnrc_netif_hdr_get_dst_addr\<close> is defined outside the
  source files; the destination address follows the source address behind the header.\<close>

definition gnrc_netif_hdr_get_dst_addr :: "gnrc_netif_hdr \<Rightarrow> u8 list" where
  "gnrc_netif_hdr_get_dst_addr h = drop (unat (src_l2addr_len h)) (hdr_addrs h)"

subsection \<open>Sending\<close>

text \<open>Lines 54 to 63: the destination address. \<open>None\<close> is the branch that returns
  \<^verbatim>\<open>-EBADMSG\<close>.\<close>

definition resolve_mac :: "platform \<Rightarrow> gnrc_netif_hdr \<Rightarrow> fault + u8 list option" where
  "resolve_mac plat netif_hdr =
     (if flags netif_hdr AND
           (GNRC_NETIF_HDR_FLAGS_BROADCAST plat OR GNRC_NETIF_HDR_FLAGS_MULTICAST plat) \<noteq> 0
      then Inr (Some (replicate ESP_NOW_ADDR_LEN 0xff))
      else if unat (dst_l2addr_len netif_hdr) = ESP_NOW_ADDR_LEN
      then (case read_bytes (gnrc_netif_hdr_get_dst_addr netif_hdr) ESP_NOW_ADDR_LEN of
              Inl f \<Rightarrow> Inl f
            | Inr a \<Rightarrow> Inr (Some a))
      else Inr None)"

text \<open>Lines 65 to 73: the header flags, from the type of the segment behind the first.\<close>

definition select_flags :: "platform \<Rightarrow> gnrc_nettype \<Rightarrow> u8" where
  "select_flags plat t =
     (if MODULE_GNRC_SIXLOWPAN plat \<and> t = GNRC_NETTYPE_SIXLOWPAN then 1 else 0)"

text \<open>Lines 83 to 96: the loop over the payload segments. \<open>None\<close> is the exit at line 90;
  otherwise the final \<^verbatim>\<open>payload_len\<close> and the contents of \<^verbatim>\<open>esp_now_pkt.buf.data\<close>.
  \<^verbatim>\<open>payload_len\<close> is an \<^verbatim>\<open>unsigned\<close> of 32 bits on this CPU: the addition of line 84 wraps
  around. \<^verbatim>\<open>pos\<close> is the offset of the write pointer in the data array.\<close>

fun copy_payload ::
  "gnrc_pktsnip list \<Rightarrow> nat \<Rightarrow> nat \<Rightarrow> u8 list \<Rightarrow> fault + (nat \<times> u8 list) option" where
  "copy_payload [] payload_len pos data = Inr (Some (payload_len, data))"
| "copy_payload (payload # rest) payload_len pos data =
     (let payload_len' = (payload_len + snip_size payload) mod 2 ^ 32 in
      if payload_len' > ESP_NOW_MAX_SIZE then Inr None
      else (case memcpy data pos (snip_data payload) of
              Inl f \<Rightarrow> Inl f
            | Inr data' \<Rightarrow> copy_payload rest payload_len' (pos + snip_size payload) data'))"

text \<open>\<^verbatim>\<open>_send\<close>. \<open>drv_send\<close> is the driver's \<^verbatim>\<open>send\<close>, \<open>stack\<close> the contents of the
  uninitialised \<^verbatim>\<open>esp_now_pkt.buf.data\<close>.\<close>

definition esp_now_send ::
  "platform \<Rightarrow> (esp_now_pkt \<Rightarrow> int) \<Rightarrow> (nat \<Rightarrow> u8) \<Rightarrow> outbound \<Rightarrow> fault + send_result" where
  "esp_now_send plat drv_send stack pkt =
     (let payload = pkt_next pkt in
      if pkt_type pkt \<noteq> GNRC_NETTYPE_NETIF
      then Inr \<lparr>ret = - EBADMSG plat, released = True, sent = None\<rparr>
      else
        (case resolve_mac plat (pkt_hdr pkt) of
           Inl f \<Rightarrow> Inl f
         | Inr None \<Rightarrow> Inr \<lparr>ret = - EBADMSG plat, released = False, sent = None\<rparr>
         | Inr (Some m) \<Rightarrow>
             (case payload of
                [] \<Rightarrow> Inl NullDeref
              | first # _ \<Rightarrow>
                  (let hdr_flags = select_flags plat (snip_type first) in
                   case copy_payload payload 0 0 (map stack [0..<ESP_NOW_MAX_SIZE]) of
                     Inl f \<Rightarrow> Inl f
                   | Inr None \<Rightarrow> Inr \<lparr>ret = - EBADMSG plat, released = True, sent = None\<rparr>
                   | Inr (Some (payload_len, data)) \<Rightarrow>
                       (let esp_now_pkt =
                              \<lparr>buf_hdr_flags = hdr_flags, buf_data = data,
                               len = of_nat ESP_NOW_HEADER_LENGTH + of_nat payload_len,
                               mac = m\<rparr>
                        in Inr \<lparr>ret = drv_send esp_now_pkt, released = True,
                                sent = Some esp_now_pkt\<rparr>)))))"

subsection \<open>Receiving\<close>

text \<open>\<^verbatim>\<open>esp_now_netdev_t\<close>, as far as \<^verbatim>\<open>_recv\<close> uses it: the address of the device and
  the receive packet that the driver fills.\<close>

record esp_now_netdev =
  addr :: "u8 list"
  rx_pkt :: esp_now_pkt

text \<open>The arrays of \<^verbatim>\<open>esp_now_pkt_t\<close> and \<^verbatim>\<open>esp_now_netdev_t\<close> have their declared
  sizes.\<close>

definition pkt_wf :: "esp_now_pkt \<Rightarrow> bool" where
  "pkt_wf p \<longleftrightarrow> length (buf_data p) = ESP_NOW_MAX_SIZE \<and> length (mac p) = ESP_NOW_ADDR_LEN"

definition dev_wf :: "esp_now_netdev \<Rightarrow> bool" where
  "dev_wf d \<longleftrightarrow> length (addr d) = ESP_NOW_ADDR_LEN \<and> pkt_wf (rx_pkt d)"

text \<open>Modelled from the spec: the packet buffer (\<^verbatim>\<open>gnrc_pktbuf_add\<close>,
  \<^verbatim>\<open>gnrc_pktbuf_release\<close>) is defined outside the source files. It is a buffer-chain
  allocator whose allocations may fail. Its state is the list of the segments that are
  allocated, each with its type and size; whether a request of a given size succeeds in a
  given state is decided by \<open>fits\<close>, which the operations take as a parameter.\<close>

type_synonym pktbuf = "(gnrc_nettype \<times> nat) list"

definition pktbuf_alloc ::
  "(pktbuf \<Rightarrow> nat \<Rightarrow> bool) \<Rightarrow> pktbuf \<Rightarrow> nat \<Rightarrow> gnrc_nettype \<Rightarrow> pktbuf option" where
  "pktbuf_alloc fits pb n t = (if fits pb n then Some ((t, n) # pb) else None)"

text \<open>Modelled from the spec: \<^verbatim>\<open>gnrc_pktbuf_add(NULL, data, size, type)\<close> with a data
  pointer allocates a segment and copies \<open>size\<close> bytes into it; the result is the segment,
  or \<open>None\<close> for the null pointer.\<close>

definition gnrc_pktbuf_add ::
  "(pktbuf \<Rightarrow> nat \<Rightarrow> bool) \<Rightarrow> pktbuf \<Rightarrow> u8 list \<Rightarrow> nat \<Rightarrow> gnrc_nettype \<Rightarrow>
     fault + (gnrc_pktsnip option \<times> pktbuf)" where
  "gnrc_pktbuf_add fits pb data n t =
     (case pktbuf_alloc fits pb n t of
        None \<Rightarrow> Inr (None, pb)
      | Some pb' \<Rightarrow>
          (case read_bytes data n of
             Inl f \<Rightarrow> Inl f
           | Inr bytes \<Rightarrow> Inr (Some \<lparr>snip_type = t, snip_data = bytes\<rparr>, pb')))"

text \<open>Modelled from the spec: \<^verbatim>\<open>gnrc_pktbuf_release\<close> of a single segment, which frees
  it.\<close>

definition gnrc_pktbuf_release :: "pktbuf \<Rightarrow> gnrc_pktsnip \<Rightarrow> pktbuf" where
  "gnrc_pktbuf_release pb s = remove1 (snip_type s, snip_size s) pb"

text \<open>Modelled from the spec: \<^verbatim>\<open>gnrc_netif_hdr_init\<close>, \<^verbatim>\<open>gnrc_netif_hdr_set_src_addr\<close> and
  \<^verbatim>\<open>gnrc_netif_hdr_set_dst_addr\<close> are defined outside the source files. The first sets
  the two declared lengths and clears the flags and the interface; the others store an
  address of the declared length behind the header, the source address first.\<close>

definition gnrc_netif_hdr_init :: "gnrc_netif_hdr \<Rightarrow> nat \<Rightarrow> nat \<Rightarrow> gnrc_netif_hdr" where
  "gnrc_netif_hdr_init h src_len dst_len =
     h\<lparr>src_l2addr_len := of_nat src_len, dst_l2addr_len := of_nat dst_len,
       if_pid := 0, flags := 0\<rparr>"

definition gnrc_netif_hdr_set_src_addr ::
  "gnrc_netif_hdr \<Rightarrow> u8 list \<Rightarrow> nat \<Rightarrow> fault + gnrc_netif_hdr" where
  "gnrc_netif_hdr_set_src_addr h a addr_len =
     (if addr_len \<noteq> unat (src_l2addr_len h) then Inr h
      else (case read_bytes a addr_len of
              Inl f \<Rightarrow> Inl f
            | Inr bytes \<Rightarrow>
                (case memcpy (hdr_addrs h) 0 bytes of
                   Inl f \<Rightarrow> Inl f
                 | Inr m \<Rightarrow> Inr (h\<lparr>hdr_addrs := m\<rparr>))))"

definition gnrc_netif_hdr_set_dst_addr ::
  "gnrc_netif_hdr \<Rightarrow> u8 list \<Rightarrow> nat \<Rightarrow> fault + gnrc_netif_hdr" where
  "gnrc_netif_hdr_set_dst_addr h a addr_len =
     (if addr_len \<noteq> unat (dst_l2addr_len h) then Inr h
      else (case read_bytes a addr_len of
              Inl f \<Rightarrow> Inl f
            | Inr bytes \<Rightarrow>
                (case memcpy (hdr_addrs h) (unat (src_l2addr_len h)) bytes of
                   Inl f \<Rightarrow> Inl f
                 | Inr m \<Rightarrow> Inr (h\<lparr>hdr_addrs := m\<rparr>))))"

definition gnrc_netif_hdr_get_src_addr :: "gnrc_netif_hdr \<Rightarrow> u8 list" where
  "gnrc_netif_hdr_get_src_addr h = take (unat (src_l2addr_len h)) (hdr_addrs h)"

text \<open>The chain that \<^verbatim>\<open>_recv\<close> returns: the payload segment and, as its \<^verbatim>\<open>next\<close>, the
  segment with the generic netif header.\<close>

record inbound =
  in_pkt :: gnrc_pktsnip
  in_next_type :: gnrc_nettype
  in_next_hdr :: gnrc_netif_hdr

text \<open>What a call of \<^verbatim>\<open>_recv\<close> did: the chain returned (\<open>None\<close> for the null pointer),
  the device and the packet buffer afterwards.\<close>

record recv_result =
  result :: "inbound option"
  dev :: esp_now_netdev
  pktbuf :: pktbuf

text \<open>Lines 129 to 138: the type of the payload, from the header flags.\<close>

definition select_nettype :: "platform \<Rightarrow> u8 \<Rightarrow> gnrc_nettype" where
  "select_nettype plat f =
     (if MODULE_GNRC_SIXLOWPAN plat \<and> f = 1 then GNRC_NETTYPE_SIXLOWPAN
      else GNRC_NETTYPE_UNDEF)"

text \<open>Line 141: \<^verbatim>\<open>rx_pkt.len - ESP_NOW_HEADER_LENGTH\<close> is computed in \<^verbatim>\<open>size_t\<close> and stored
  in an \<^verbatim>\<open>unsigned\<close>, both of 32 bits on this CPU: a length of 0 wraps around.\<close>

definition recv_pkt_len :: "u8 \<Rightarrow> nat" where
  "recv_pkt_len l = (unat l + 2 ^ 32 - ESP_NOW_HEADER_LENGTH) mod 2 ^ 32"

text \<open>Lines 149 to 165: the header segment. \<open>heap\<close> is the contents of the memory that
  the allocation returns, \<open>pid\<close> the result of \<^verbatim>\<open>thread_getpid\<close>.\<close>

definition build_netif_hdr ::
  "(nat \<Rightarrow> u8) \<Rightarrow> int \<Rightarrow> esp_now_netdev \<Rightarrow> fault + gnrc_netif_hdr" where
  "build_netif_hdr heap pid esp_now =
     (let h0 = \<lparr>src_l2addr_len = heap 0, dst_l2addr_len = heap 1, if_pid = uint (heap 2),
                flags = heap 3, hdr_addrs = map heap [4..<4 + 2 * ESP_NOW_ADDR_LEN]\<rparr>;
          h1 = gnrc_netif_hdr_init h0 ESP_NOW_ADDR_LEN ESP_NOW_ADDR_LEN
      in case gnrc_netif_hdr_set_src_addr h1 (mac (rx_pkt esp_now)) ESP_NOW_ADDR_LEN of
           Inl f \<Rightarrow> Inl f
         | Inr h2 \<Rightarrow>
             (case gnrc_netif_hdr_set_dst_addr h2 (addr esp_now) ESP_NOW_ADDR_LEN of
                Inl f \<Rightarrow> Inl f
              | Inr h3 \<Rightarrow> Inr (h3\<lparr>if_pid := pid\<rparr>)))"

text \<open>\<^verbatim>\<open>_recv\<close>. \<open>drv_recv\<close> is the driver's \<^verbatim>\<open>recv\<close>, which is given the receive packet of
  the device as its buffer: it returns a number and the device as it has left it.\<close>

definition esp_now_recv ::
  "platform \<Rightarrow> (esp_now_netdev \<Rightarrow> int \<times> esp_now_netdev) \<Rightarrow> (pktbuf \<Rightarrow> nat \<Rightarrow> bool) \<Rightarrow>
     (nat \<Rightarrow> u8) \<Rightarrow> int \<Rightarrow> esp_now_netdev \<Rightarrow> pktbuf \<Rightarrow> fault + recv_result" where
  "esp_now_recv plat drv_recv fits heap pid esp_now0 pb =
     (let (recv_res, esp_now) = drv_recv esp_now0 in
      if recv_res \<le> 0 then Inr \<lparr>result = None, dev = esp_now, pktbuf = pb\<rparr>
      else
        (let nettype = select_nettype plat (buf_hdr_flags (rx_pkt esp_now));
             pkt_len = recv_pkt_len (len (rx_pkt esp_now))
         in case gnrc_pktbuf_add fits pb (buf_data (rx_pkt esp_now)) pkt_len nettype of
              Inl f \<Rightarrow> Inl f
            | Inr (None, pb1) \<Rightarrow> Inr \<lparr>result = None, dev = esp_now, pktbuf = pb1\<rparr>
            | Inr (Some pkt, pb1) \<Rightarrow>
                (case pktbuf_alloc fits pb1
                        (sizeof_gnrc_netif_hdr plat + 2 * ESP_NOW_ADDR_LEN)
                        GNRC_NETTYPE_NETIF of
                   None \<Rightarrow>
                     Inr \<lparr>result = None, dev = esp_now,
                          pktbuf = gnrc_pktbuf_release pb1 pkt\<rparr>
                 | Some pb2 \<Rightarrow>
                     (case build_netif_hdr heap pid esp_now of
                        Inl f \<Rightarrow> Inl f
                      | Inr netif_hdr \<Rightarrow>
                          Inr \<lparr>result = Some \<lparr>in_pkt = pkt,
                                               in_next_type = GNRC_NETTYPE_NETIF,
                                               in_next_hdr = netif_hdr\<rparr>,
                               dev = esp_now\<lparr>rx_pkt := (rx_pkt esp_now)\<lparr>len := 0\<rparr>\<rparr>,
                               pktbuf = pb2\<rparr>))))"

subsection \<open>Notions of the specification\<close>

text \<open>The total payload length of a chain and the concatenation of its payload
  segments, in chain order.\<close>

definition payload_total :: "gnrc_pktsnip list \<Rightarrow> nat" where
  "payload_total segs = sum_list (map snip_size segs)"

definition payload_bytes :: "gnrc_pktsnip list \<Rightarrow> u8 list" where
  "payload_bytes segs = concat (map snip_data segs)"

text \<open>No segment is so large that adding its size to a sum within the capacity leaves
  the 32 bits of \<^verbatim>\<open>payload_len\<close>.\<close>

definition no_wrap :: "gnrc_pktsnip list \<Rightarrow> bool" where
  "no_wrap segs \<longleftrightarrow> (\<forall>s \<in> set segs. snip_size s + ESP_NOW_MAX_SIZE < 2 ^ 32)"

text \<open>The flags of the metadata mark broadcast or multicast (the test of line 54).\<close>

definition is_bcast :: "platform \<Rightarrow> gnrc_netif_hdr \<Rightarrow> bool" where
  "is_bcast plat h \<longleftrightarrow>
     flags h AND (GNRC_NETIF_HDR_FLAGS_BROADCAST plat OR GNRC_NETIF_HDR_FLAGS_MULTICAST plat) \<noteq> 0"

text \<open>Well-formed metadata: the first segment has the generic netif type, and either it
  is flagged broadcast or multicast, or it declares a destination address of
  \<^verbatim>\<open>ESP_NOW_ADDR_LEN\<close> bytes and holds the two addresses that it declares.\<close>

definition metadata_ok :: "platform \<Rightarrow> outbound \<Rightarrow> bool" where
  "metadata_ok plat pkt \<longleftrightarrow>
     pkt_type pkt = GNRC_NETTYPE_NETIF \<and>
     (is_bcast plat (pkt_hdr pkt) \<or>
      unat (dst_l2addr_len (pkt_hdr pkt)) = ESP_NOW_ADDR_LEN \<and>
      unat (src_l2addr_len (pkt_hdr pkt)) + ESP_NOW_ADDR_LEN \<le> length (hdr_addrs (pkt_hdr pkt)))"

text \<open>The destination that the specification resolves for well-formed metadata.\<close>

definition dest_mac :: "platform \<Rightarrow> gnrc_netif_hdr \<Rightarrow> u8 list" where
  "dest_mac plat h =
     (if is_bcast plat h then replicate ESP_NOW_ADDR_LEN 0xff
      else take ESP_NOW_ADDR_LEN (gnrc_netif_hdr_get_dst_addr h))"

text \<open>The frame on the wire: \<open>len\<close> is the number of bytes in the buffer including the
  header, so the frame is the header byte and the first \<open>len - 1\<close> bytes of the data.\<close>

definition frame_bytes :: "esp_now_pkt \<Rightarrow> u8 list" where
  "frame_bytes p =
     buf_hdr_flags p # take (unat (len p) - ESP_NOW_HEADER_LENGTH) (buf_data p)"

text \<open>The packet that the specification expects at the driver for a chain whose first
  payload segment has type \<open>t\<close>; behind the payload the data array keeps what the stack
  held.\<close>

definition spec_frame :: "platform \<Rightarrow> (nat \<Rightarrow> u8) \<Rightarrow> outbound \<Rightarrow> gnrc_nettype \<Rightarrow> esp_now_pkt" where
  "spec_frame plat stack pkt t =
     \<lparr>buf_hdr_flags = select_flags plat t,
      buf_data = payload_bytes (pkt_next pkt) @
                 drop (payload_total (pkt_next pkt)) (map stack [0..<ESP_NOW_MAX_SIZE]),
      len = of_nat ESP_NOW_HEADER_LENGTH + of_nat (payload_total (pkt_next pkt)),
      mac = dest_mac plat (pkt_hdr pkt)\<rparr>"

text \<open>The call of the driver's \<^verbatim>\<open>send\<close> that a run of \<^verbatim>\<open>_send\<close> made, if any.\<close>

definition send_call :: "fault + send_result \<Rightarrow> esp_now_pkt option" where
  "send_call res = (case res of Inl f \<Rightarrow> None | Inr r \<Rightarrow> sent r)"

text \<open>A received frame as the transport delivers it: the arrays have their sizes and the
  length counts at least the header and at most \<^verbatim>\<open>ESP_NOW_MAX_SIZE_RAW\<close> bytes.\<close>

definition rx_valid :: "esp_now_pkt \<Rightarrow> bool" where
  "rx_valid p \<longleftrightarrow>
     pkt_wf p \<and> ESP_NOW_HEADER_LENGTH \<le> unat (len p) \<and> unat (len p) \<le> ESP_NOW_MAX_SIZE_RAW"

subsection \<open>Example inputs\<close>

text \<open>A platform with the 6LoWPAN module, a metadata header that holds the destination
  address \<^verbatim>\<open>AA:BB:CC:DD:EE:FF\<close>, payload segments with the bytes \<open>1, 2, \<dots>, n\<close>, a
  payload segment of \<open>n\<close> zero bytes, and chains made of them.\<close>

definition ex_plat :: platform where
  "ex_plat = \<lparr>EBADMSG = 77, GNRC_NETIF_HDR_FLAGS_BROADCAST = 0x80,
     GNRC_NETIF_HDR_FLAGS_MULTICAST = 0x40, MODULE_GNRC_SIXLOWPAN = True,
     sizeof_gnrc_netif_hdr = 6\<rparr>"

definition ex_hdr :: "u8 \<Rightarrow> u8 \<Rightarrow> gnrc_netif_hdr" where
  "ex_hdr fl dst_len = \<lparr>src_l2addr_len = 0, dst_l2addr_len = dst_len, if_pid = 0, flags = fl,
     hdr_addrs = [0xAA, 0xBB, 0xCC, 0xDD, 0xEE, 0xFF]\<rparr>"

definition ex_seg :: "gnrc_nettype \<Rightarrow> nat \<Rightarrow> gnrc_pktsnip" where
  "ex_seg t n = \<lparr>snip_type = t, snip_data = map of_nat [1..<Suc n]\<rparr>"

definition ex_big_seg :: "nat \<Rightarrow> gnrc_pktsnip" where
  "ex_big_seg n = \<lparr>snip_type = GNRC_NETTYPE_UNDEF, snip_data = replicate n 0\<rparr>"

definition ex_pkt :: "u8 \<Rightarrow> u8 \<Rightarrow> gnrc_pktsnip list \<Rightarrow> outbound" where
  "ex_pkt fl dst_len segs =
     \<lparr>pkt_type = GNRC_NETTYPE_NETIF, pkt_hdr = ex_hdr fl dst_len, pkt_next = segs\<rparr>"

text \<open>A received frame with tag 1 and ten payload bytes, a device, and a driver
  \<^verbatim>\<open>recv\<close> that stores a given frame in the receive packet of the device and returns a
  given number.\<close>

definition ex_frame :: esp_now_pkt where
  "ex_frame = \<lparr>buf_hdr_flags = 1, buf_data = map of_nat [1..<11] @ replicate 239 0, len = 11,
     mac = [0x11, 0x22, 0x33, 0x44, 0x55, 0x66]\<rparr>"

definition ex_dev :: esp_now_netdev where
  "ex_dev = \<lparr>addr = [0xA1, 0xA2, 0xA3, 0xA4, 0xA5, 0xA6],
     rx_pkt = \<lparr>buf_hdr_flags = 0, buf_data = replicate 249 0, len = 0,
                mac = replicate 6 0\<rparr>\<rparr>"

definition ex_drv_recv :: "int \<Rightarrow> esp_now_pkt \<Rightarrow> esp_now_netdev \<Rightarrow> int \<times> esp_now_netdev" where
  "ex_drv_recv n p d = (n, d\<lparr>rx_pkt := p\<rparr>)"

section \<open>Properties\<close>

subsection \<open>The copy loop\<close>

lemma max_size: "ESP_NOW_MAX_SIZE = 249"
  by (simp add: ESP_NOW_MAX_SIZE_def ESP_NOW_MAX_SIZE_RAW_def ESP_NOW_HEADER_LENGTH_def)

lemma payload_total_simps [simp]:
  "payload_total [] = 0" "payload_total (s # segs) = snip_size s + payload_total segs"
  by (simp_all add: payload_total_def)

lemma payload_bytes_simps [simp]:
  "payload_bytes [] = []" "payload_bytes (s # segs) = snip_data s @ payload_bytes segs"
  by (simp_all add: payload_bytes_def)

lemma length_payload_bytes: "length (payload_bytes segs) = payload_total segs"
  by (induction segs) (simp_all add: snip_size_def)

lemma copy_payload_fits:
  "payload_len + payload_total segs \<le> ESP_NOW_MAX_SIZE \<Longrightarrow> length data = ESP_NOW_MAX_SIZE \<Longrightarrow>
   copy_payload segs payload_len payload_len data =
     Inr (Some (payload_len + payload_total segs,
                take payload_len data @ payload_bytes segs @
                drop (payload_len + payload_total segs) data))"
proof (induction segs arbitrary: payload_len data)
  case Nil
  then show ?case by simp
next
  case (Cons s segs)
  let ?n = "snip_size s"
  let ?d = "take payload_len data @ snip_data s @ drop (payload_len + ?n) data"
  from Cons.prems have le: "payload_len + ?n \<le> ESP_NOW_MAX_SIZE"
    and le': "(payload_len + ?n) + payload_total segs \<le> ESP_NOW_MAX_SIZE" by simp_all
  from le Cons.prems(2) have m: "memcpy data payload_len (snip_data s) = Inr ?d"
    by (simp add: memcpy_def snip_size_def)
  from le Cons.prems(2) have len: "length ?d = ESP_NOW_MAX_SIZE"
    by (simp add: snip_size_def)
  have tk: "take (payload_len + ?n) ?d = take payload_len data @ snip_data s"
    using le Cons.prems(2) by (simp add: snip_size_def)
  have dr: "drop (payload_len + ?n + payload_total segs) ?d =
            drop (payload_len + ?n + payload_total segs) data"
    using le' Cons.prems(2) by (simp add: snip_size_def add.commute)
  from le have md: "(payload_len + ?n) mod 4294967296 = payload_len + ?n"
    by (simp add: max_size)
  have "copy_payload (s # segs) payload_len payload_len data =
        copy_payload segs (payload_len + ?n) (payload_len + ?n) ?d"
    using le m by (simp add: Let_def md)
  also have "\<dots> = Inr (Some (payload_len + ?n + payload_total segs,
                take (payload_len + ?n) ?d @ payload_bytes segs @
                drop (payload_len + ?n + payload_total segs) ?d))"
    by (rule Cons.IH [OF le' len])
  finally show ?case
    unfolding tk dr by (simp add: add.assoc)
qed

lemma copy_payload_exceeds:
  "payload_len + payload_total segs > ESP_NOW_MAX_SIZE \<Longrightarrow> payload_len \<le> ESP_NOW_MAX_SIZE \<Longrightarrow>
   length data = ESP_NOW_MAX_SIZE \<Longrightarrow> no_wrap segs \<Longrightarrow>
   copy_payload segs payload_len payload_len data = Inr None"
proof (induction segs arbitrary: payload_len data)
  case Nil
  then show ?case by simp
next
  case (Cons s segs)
  from Cons.prems(2,4) have md:
    "(payload_len + snip_size s) mod 4294967296 = payload_len + snip_size s"
    by (simp add: no_wrap_def)
  from Cons.prems(4) have nw: "no_wrap segs" by (simp add: no_wrap_def)
  show ?case
  proof (cases "payload_len + snip_size s > ESP_NOW_MAX_SIZE")
    case True
    then show ?thesis by (simp add: Let_def md)
  next
    case False
    let ?d = "take payload_len data @ snip_data s @ drop (payload_len + snip_size s) data"
    from False Cons.prems(3) have m: "memcpy data payload_len (snip_data s) = Inr ?d"
      by (simp add: memcpy_def snip_size_def)
    from False Cons.prems(3) have len: "length ?d = ESP_NOW_MAX_SIZE"
      by (simp add: snip_size_def)
    from Cons.prems(1) have gt: "(payload_len + snip_size s) + payload_total segs > ESP_NOW_MAX_SIZE"
      by simp
    from False have le: "payload_len + snip_size s \<le> ESP_NOW_MAX_SIZE" by simp
    have "copy_payload segs (payload_len + snip_size s) (payload_len + snip_size s) ?d = Inr None"
      by (rule Cons.IH [OF gt le len nw])
    with False m show ?thesis by (simp add: Let_def md)
  qed
qed

lemma copy_payload_fault:
  "copy_payload segs payload_len pos data = Inl f \<Longrightarrow> f = BufferOverflow"
proof (induction segs arbitrary: payload_len pos data)
  case Nil
  then show ?case by simp
next
  case (Cons s segs)
  show ?case
  proof (cases "memcpy data pos (snip_data s)")
    case (Inl g)
    then have "g = BufferOverflow" by (simp add: memcpy_def split: if_splits)
    with Cons.prems Inl show ?thesis by (simp add: Let_def split: if_splits)
  next
    case (Inr d)
    with Cons.prems have
      "copy_payload segs ((payload_len + snip_size s) mod 4294967296) (pos + snip_size s) d = Inl f"
      by (simp add: Let_def split: if_splits)
    then show ?thesis by (rule Cons.IH)
  qed
qed

lemma resolve_mac_ok:
  "metadata_ok plat pkt \<Longrightarrow> resolve_mac plat (pkt_hdr pkt) = Inr (Some (dest_mac plat (pkt_hdr pkt)))"
  by (auto simp: metadata_ok_def resolve_mac_def dest_mac_def is_bcast_def read_bytes_def
      gnrc_netif_hdr_get_dst_addr_def)

lemma resolve_mac_fault: "resolve_mac plat h = Inl f \<Longrightarrow> f = OutOfBoundsRead"
  by (auto simp: resolve_mac_def read_bytes_def split: if_splits)

lemma length_stack [simp]: "length (map stack [0..<ESP_NOW_MAX_SIZE]) = ESP_NOW_MAX_SIZE"
  by simp

lemma copy_payload_start_fits:
  "payload_total segs \<le> ESP_NOW_MAX_SIZE \<Longrightarrow>
   copy_payload segs 0 0 (map stack [0..<ESP_NOW_MAX_SIZE]) =
     Inr (Some (payload_total segs,
            payload_bytes segs @ drop (payload_total segs) (map stack [0..<ESP_NOW_MAX_SIZE])))"
  using copy_payload_fits [of 0 segs "map stack [0..<ESP_NOW_MAX_SIZE]"] by simp

lemma copy_payload_start_exceeds:
  "ESP_NOW_MAX_SIZE < payload_total segs \<Longrightarrow> no_wrap segs \<Longrightarrow>
   copy_payload segs 0 0 (map stack [0..<ESP_NOW_MAX_SIZE]) = Inr None"
  using copy_payload_exceeds [of 0 segs "map stack [0..<ESP_NOW_MAX_SIZE]"] by simp

lemma send_frame:
  assumes "metadata_ok plat pkt" and "pkt_next pkt = first # rest"
    and "payload_total (pkt_next pkt) \<le> ESP_NOW_MAX_SIZE"
  shows "esp_now_send plat drv_send stack pkt =
           Inr \<lparr>ret = drv_send (spec_frame plat stack pkt (snip_type first)), released = True,
                sent = Some (spec_frame plat stack pkt (snip_type first))\<rparr>"
proof -
  from assms(1) have t: "pkt_type pkt = GNRC_NETTYPE_NETIF" by (simp add: metadata_ok_def)
  have c: "copy_payload (first # rest) 0 0 (map stack [0..<ESP_NOW_MAX_SIZE]) =
     Inr (Some (payload_total (first # rest),
             payload_bytes (first # rest) @
             drop (payload_total (first # rest)) (map stack [0..<ESP_NOW_MAX_SIZE])))"
    using assms(3) unfolding assms(2) by (rule copy_payload_start_fits)
  show ?thesis
    unfolding esp_now_send_def Let_def spec_frame_def assms(2)
    by (simp only: t resolve_mac_ok [OF assms(1)] c) simp
qed

lemma unat_frame_len:
  "n \<le> ESP_NOW_MAX_SIZE \<Longrightarrow> unat (of_nat ESP_NOW_HEADER_LENGTH + of_nat n :: u8) = 1 + n"
proof -
  assume "n \<le> ESP_NOW_MAX_SIZE"
  then have "1 + n < 256"
    by (simp add: ESP_NOW_MAX_SIZE_def ESP_NOW_MAX_SIZE_RAW_def ESP_NOW_HEADER_LENGTH_def)
  moreover have "(of_nat ESP_NOW_HEADER_LENGTH + of_nat n :: u8) = of_nat (1 + n)"
    by (simp add: ESP_NOW_HEADER_LENGTH_def)
  ultimately show ?thesis
    by (simp only: unat_of_nat) simp
qed

subsection \<open>Facts about the example inputs\<close>

lemma ex_size [simp]: "snip_size (ex_seg t n) = n"
  by (simp add: ex_seg_def snip_size_def)

lemma ex_type [simp]: "snip_type (ex_seg t n) = t"
  by (simp add: ex_seg_def)

lemma ex_data_10: "snip_data (ex_seg t 10) = [1, 2, 3, 4, 5, 6, 7, 8, 9, 10]"
  by (simp add: ex_seg_def upt_rec)

lemma ex_metadata_ok: "metadata_ok ex_plat (ex_pkt 0 6 segs)"
  by (simp add: metadata_ok_def ex_pkt_def ex_hdr_def ESP_NOW_ADDR_LEN_def)

lemma ex_metadata_bcast: "is_bcast ex_plat (pkt_hdr (ex_pkt 0x40 0 segs))"
  by (simp add: is_bcast_def ex_pkt_def ex_hdr_def ex_plat_def)

lemma ex_big_size [simp]: "snip_size (ex_big_seg n) = n"
  by (simp add: ex_big_seg_def snip_size_def)

lemma ex_length [simp]: "length (snip_data (ex_seg t n)) = n"
  "length (snip_data (ex_big_seg n)) = n"
  by (simp_all add: ex_seg_def ex_big_seg_def)

subsection \<open>Sending\<close>

text \<open>Claim C1. A chain whose first segment has the generic netif type, whose flags mark
  neither broadcast nor multicast and whose declared destination-address length is not 6
  is to be rejected with \<^verbatim>\<open>-EBADMSG\<close>, released, and not sent. The code returns at line 62
  without the call of \<^verbatim>\<open>gnrc_pktbuf_release\<close> that the exits at lines 48 and 89 make:
  for a header that declares 8 address bytes the chain is rejected and not sent, but it is
  not released.\<close>

theorem send_bad_addr_len_no_release:
  "esp_now_send ex_plat (\<lambda>_. 0) (\<lambda>_. 0) (ex_pkt 0 8 [ex_seg GNRC_NETTYPE_UNDEF 3]) =
     Inr \<lparr>ret = - 77, released = False, sent = None\<rparr>"
  by (simp add: esp_now_send_def resolve_mac_def ex_plat_def ex_pkt_def ex_hdr_def
      ESP_NOW_ADDR_LEN_def)

text \<open>Claim C3. For a chain with well-formed metadata, at least one payload segment and a
  total payload length of at most \<^verbatim>\<open>ESP_NOW_MAX_SIZE\<close>, the chain is released and the
  driver is called once, with a frame whose length byte is 1 plus the total payload
  length, whose first byte is the tag of the first payload segment's type (1 for 6LoWPAN
  when that module is compiled in, 0 for every other type) and whose other bytes are the
  data of the payload segments in chain order.\<close>

theorem send_frame_layout:
  assumes "metadata_ok plat pkt" and "pkt_next pkt = first # rest"
    and "payload_total (pkt_next pkt) \<le> ESP_NOW_MAX_SIZE"
  shows "\<exists>frame. esp_now_send plat drv_send stack pkt =
                   Inr \<lparr>ret = drv_send frame, released = True, sent = Some frame\<rparr> \<and>
                 unat (len frame) = 1 + payload_total (pkt_next pkt) \<and>
                 frame_bytes frame =
                   (if MODULE_GNRC_SIXLOWPAN plat \<and> snip_type first = GNRC_NETTYPE_SIXLOWPAN
                    then 1 else 0) # payload_bytes (pkt_next pkt)"
proof -
  let ?f = "spec_frame plat stack pkt (snip_type first)"
  have l: "unat (len ?f) = 1 + payload_total (pkt_next pkt)"
    using unat_frame_len [OF assms(3)] by (simp add: spec_frame_def)
  have "frame_bytes ?f =
          (if MODULE_GNRC_SIXLOWPAN plat \<and> snip_type first = GNRC_NETTYPE_SIXLOWPAN
           then 1 else 0) # payload_bytes (pkt_next pkt)"
    unfolding frame_bytes_def l
    by (simp add: spec_frame_def select_flags_def ESP_NOW_HEADER_LENGTH_def
        length_payload_bytes)
  with l send_frame [OF assms, of drv_send stack] show ?thesis by blast
qed

theorem send_frame_layout_witness:
  "(\<exists>frame. esp_now_send ex_plat (\<lambda>_. 0) (\<lambda>_. 0) (ex_pkt 0 6 [ex_seg GNRC_NETTYPE_SIXLOWPAN 10]) =
              Inr \<lparr>ret = 0, released = True, sent = Some frame\<rparr> \<and>
            unat (len frame) = 11 \<and>
            frame_bytes frame = [1, 1, 2, 3, 4, 5, 6, 7, 8, 9, 10]) \<and>
   (\<exists>frame. esp_now_send ex_plat (\<lambda>_. 0) (\<lambda>_. 0) (ex_pkt 0 6 [ex_seg GNRC_NETTYPE_UNDEF 10]) =
              Inr \<lparr>ret = 0, released = True, sent = Some frame\<rparr> \<and>
            unat (len frame) = 11 \<and>
            frame_bytes frame = [0, 1, 2, 3, 4, 5, 6, 7, 8, 9, 10])"
proof -
  have h2: "pkt_next (ex_pkt 0 6 [ex_seg t 10]) = [ex_seg t 10]" for t
    by (simp add: ex_pkt_def)
  have h3: "payload_total (pkt_next (ex_pkt 0 6 [ex_seg t 10])) \<le> ESP_NOW_MAX_SIZE" for t
    by (simp add: ex_pkt_def max_size)
  from send_frame_layout [OF ex_metadata_ok h2 [of GNRC_NETTYPE_SIXLOWPAN]
        h3 [of GNRC_NETTYPE_SIXLOWPAN], where drv_send = "\<lambda>_. 0" and stack = "\<lambda>_. 0"]
    send_frame_layout [OF ex_metadata_ok h2 [of GNRC_NETTYPE_UNDEF]
        h3 [of GNRC_NETTYPE_UNDEF], where drv_send = "\<lambda>_. 0" and stack = "\<lambda>_. 0"]
  show ?thesis
    by (simp add: ex_pkt_def ex_plat_def ex_data_10)
qed

lemma send_exceeds:
  assumes "metadata_ok plat pkt" and "ESP_NOW_MAX_SIZE < payload_total (pkt_next pkt)"
    and "no_wrap (pkt_next pkt)"
  shows "esp_now_send plat drv_send stack pkt =
           Inr \<lparr>ret = - EBADMSG plat, released = True, sent = None\<rparr>"
proof -
  from assms(1) have t: "pkt_type pkt = GNRC_NETTYPE_NETIF" by (simp add: metadata_ok_def)
  from assms(2) obtain first rest where n: "pkt_next pkt = first # rest"
    by (cases "pkt_next pkt") auto
  have c: "copy_payload (first # rest) 0 0 (map stack [0..<ESP_NOW_MAX_SIZE]) = Inr None"
    using assms(2,3) unfolding n by (rule copy_payload_start_exceeds)
  show ?thesis
    unfolding esp_now_send_def Let_def n
    by (simp only: t resolve_mac_ok [OF assms(1)] c) simp
qed

lemma send_loop_fault:
  assumes "metadata_ok plat pkt" and "pkt_next pkt = first # rest"
    and "esp_now_send plat drv_send stack pkt = Inl f"
  shows "copy_payload (pkt_next pkt) 0 0 (map stack [0..<ESP_NOW_MAX_SIZE]) = Inl f"
proof -
  from assms(1) have t: "pkt_type pkt = GNRC_NETTYPE_NETIF" by (simp add: metadata_ok_def)
  from assms(3) show ?thesis
    unfolding esp_now_send_def Let_def assms(2)
    by (simp only: t resolve_mac_ok [OF assms(1)])
      (simp split: sum.splits option.splits prod.splits del: copy_payload.simps)
qed

lemma send_fault_cases:
  assumes "esp_now_send plat drv_send stack pkt = Inl f"
  shows "f = OutOfBoundsRead \<and> \<not> metadata_ok plat pkt \<or>
         f = NullDeref \<and> metadata_ok plat pkt \<and> pkt_next pkt = [] \<or>
         f = BufferOverflow \<and> metadata_ok plat pkt \<and> \<not> no_wrap (pkt_next pkt)"
proof (cases "metadata_ok plat pkt")
  case True
  then have t: "pkt_type pkt = GNRC_NETTYPE_NETIF" by (simp add: metadata_ok_def)
  show ?thesis
  proof (cases "pkt_next pkt")
    case Nil
    with assms t True show ?thesis
      by (simp add: esp_now_send_def resolve_mac_ok Let_def)
  next
    case (Cons first rest)
    from send_loop_fault [OF True Cons assms] have "f = BufferOverflow"
      by (rule copy_payload_fault)
    moreover have "\<not> no_wrap (pkt_next pkt)"
    proof
      assume nw: "no_wrap (pkt_next pkt)"
      show False
      proof (cases "payload_total (pkt_next pkt) \<le> ESP_NOW_MAX_SIZE")
        case le: True
        from send_frame [OF True Cons le, of drv_send stack] assms show False by simp
      next
        case False
        then have "ESP_NOW_MAX_SIZE < payload_total (pkt_next pkt)" by simp
        from send_exceeds [OF True this nw, of drv_send stack] assms show False by simp
      qed
    qed
    ultimately show ?thesis using True by simp
  qed
next
  case False
  show ?thesis
  proof (cases "resolve_mac plat (pkt_hdr pkt)")
    case (Inl g)
    with assms False resolve_mac_fault [OF Inl] show ?thesis
      by (simp add: esp_now_send_def Let_def split: if_splits)
  next
    case (Inr m)
    show ?thesis
    proof (cases m)
      case None
      with assms Inr show ?thesis by (simp add: esp_now_send_def Let_def split: if_splits)
    next
      case (Some x)
      with Inr have "pkt_type pkt = GNRC_NETTYPE_NETIF \<Longrightarrow> metadata_ok plat pkt"
        by (auto simp: metadata_ok_def resolve_mac_def is_bcast_def read_bytes_def
            gnrc_netif_hdr_get_dst_addr_def ESP_NOW_ADDR_LEN_def split: if_splits)
      with assms False show ?thesis by (auto simp: esp_now_send_def Let_def split: if_splits)
    qed
  qed
qed



lemma send_null_deref:
  "metadata_ok plat pkt \<Longrightarrow> pkt_next pkt = [] \<Longrightarrow>
   esp_now_send plat drv_send stack pkt = Inl NullDeref"
  by (simp add: esp_now_send_def resolve_mac_ok metadata_ok_def Let_def)





text \<open>Claim C6. For a chain whose metadata flags mark broadcast or multicast, whatever the
  declared address lengths and the address bytes of the header are, the address of the
  frame passed to the driver is six bytes \<open>0xff\<close>.\<close>

theorem send_broadcast:
  assumes "pkt_type pkt = GNRC_NETTYPE_NETIF" and "is_bcast plat (pkt_hdr pkt)"
    and "pkt_next pkt = first # rest"
    and "payload_total (pkt_next pkt) \<le> ESP_NOW_MAX_SIZE"
  shows "\<exists>frame. esp_now_send plat drv_send stack pkt =
                   Inr \<lparr>ret = drv_send frame, released = True, sent = Some frame\<rparr> \<and>
                 mac frame = replicate 6 0xff"
proof -
  from assms(1,2) have ok: "metadata_ok plat pkt" by (simp add: metadata_ok_def)
  have "mac (spec_frame plat stack pkt (snip_type first)) = replicate 6 0xff"
    using assms(2) by (simp add: spec_frame_def dest_mac_def ESP_NOW_ADDR_LEN_def)
  with send_frame [OF ok assms(3,4), of drv_send stack] show ?thesis by blast
qed

theorem send_broadcast_witness:
  "\<exists>frame. esp_now_send ex_plat (\<lambda>_. 0) (\<lambda>_. 0) (ex_pkt 0x40 0 [ex_seg GNRC_NETTYPE_UNDEF 10]) =
             Inr \<lparr>ret = 0, released = True, sent = Some frame\<rparr> \<and>
           mac frame = [0xff, 0xff, 0xff, 0xff, 0xff, 0xff]"
proof -
  let ?pkt = "ex_pkt 0x40 0 [ex_seg GNRC_NETTYPE_UNDEF 10]"
  have h1: "pkt_type ?pkt = GNRC_NETTYPE_NETIF" by (simp add: ex_pkt_def)
  have h3: "pkt_next ?pkt = [ex_seg GNRC_NETTYPE_UNDEF 10]" by (simp add: ex_pkt_def)
  have h4: "payload_total (pkt_next ?pkt) \<le> ESP_NOW_MAX_SIZE"
    by (simp add: ex_pkt_def max_size)
  from send_broadcast [OF h1 ex_metadata_bcast h3 h4, of "\<lambda>_. 0" "\<lambda>_. 0"]
  show ?thesis by (simp add: numeral_eq_Suc)
qed




text \<open>Claim C10. \<^verbatim>\<open>_send\<close> reads the type of the segment behind the metadata without a
  check: the run reads through a null pointer exactly for the chains that pass the
  metadata checks and have no segment behind the first.\<close>

theorem send_needs_successor:
  "esp_now_send plat drv_send stack pkt = Inl NullDeref \<longleftrightarrow>
     metadata_ok plat pkt \<and> pkt_next pkt = []"
  using send_fault_cases [of plat drv_send stack pkt NullDeref] send_null_deref by auto

theorem send_needs_successor_witness:
  "esp_now_send ex_plat (\<lambda>_. 0) (\<lambda>_. 0) (ex_pkt 0 6 []) = Inl NullDeref \<and>
   esp_now_send ex_plat (\<lambda>_. 0) (\<lambda>_. 0) (ex_pkt 0 6 [ex_seg GNRC_NETTYPE_UNDEF 10])
     \<noteq> Inl NullDeref"
  using send_needs_successor [of ex_plat "\<lambda>_. 0" "\<lambda>_. 0" "ex_pkt 0 6 []"]
    send_needs_successor [of ex_plat "\<lambda>_. 0" "\<lambda>_. 0" "ex_pkt 0 6 [ex_seg GNRC_NETTYPE_UNDEF 10]"]
    ex_metadata_ok
  by (simp add: ex_pkt_def)

subsection \<open>Receiving\<close>

lemma recv_pkt_len_pos:
  assumes "ESP_NOW_HEADER_LENGTH \<le> unat l"
  shows "recv_pkt_len l = unat l - 1"
proof -
  from assms have "unat l + 2 ^ 32 - ESP_NOW_HEADER_LENGTH = (unat l - 1) + 2 ^ 32"
    by (simp add: ESP_NOW_HEADER_LENGTH_def)
  moreover have "unat l - 1 < (2 :: nat) ^ 32"
    using unsigned_less [of l, where 'a = nat] by simp
  ultimately show ?thesis
    by (simp add: recv_pkt_len_def)
qed

lemma recv_pkt_len_valid:
  "rx_valid p \<Longrightarrow> recv_pkt_len (len p) = unat (len p) - 1 \<and>
     recv_pkt_len (len p) \<le> length (buf_data p)"
  by (auto simp: rx_valid_def recv_pkt_len_pos pkt_wf_def max_size ESP_NOW_MAX_SIZE_RAW_def)

lemma payload_snip_size:
  "rx_valid p \<Longrightarrow>
   snip_size \<lparr>snip_type = t, snip_data = take (recv_pkt_len (len p)) (buf_data p)\<rparr> =
     recv_pkt_len (len p)"
  using recv_pkt_len_valid [of p] by (simp add: snip_size_def)

lemma add_payload_ok:
  assumes "rx_valid p" and "fits pb (recv_pkt_len (len p))"
  shows "gnrc_pktbuf_add fits pb (buf_data p) (recv_pkt_len (len p)) t =
           Inr (Some \<lparr>snip_type = t, snip_data = take (recv_pkt_len (len p)) (buf_data p)\<rparr>,
                (t, recv_pkt_len (len p)) # pb)"
  using assms recv_pkt_len_valid [OF assms(1)]
  by (simp add: gnrc_pktbuf_add_def pktbuf_alloc_def read_bytes_def)

lemma add_payload_full:
  "\<not> fits pb n \<Longrightarrow> gnrc_pktbuf_add fits pb data n t = Inr (None, pb)"
  by (simp add: gnrc_pktbuf_add_def pktbuf_alloc_def)

lemma build_netif_hdr_ok:
  assumes "dev_wf d"
  shows "build_netif_hdr heap pid d =
           Inr \<lparr>src_l2addr_len = 6, dst_l2addr_len = 6, if_pid = pid, flags = 0,
                hdr_addrs = mac (rx_pkt d) @ addr d\<rparr>"
proof -
  from assms have l: "length (mac (rx_pkt d)) = 6" "length (addr d) = 6"
    by (simp_all add: dev_wf_def pkt_wf_def ESP_NOW_ADDR_LEN_def)
  then show ?thesis
    by (simp add: build_netif_hdr_def gnrc_netif_hdr_init_def gnrc_netif_hdr_set_src_addr_def
        gnrc_netif_hdr_set_dst_addr_def read_bytes_def memcpy_def ESP_NOW_ADDR_LEN_def Let_def)
qed

lemma ex_frame_valid: "rx_valid ex_frame" "rx_valid (ex_frame\<lparr>buf_hdr_flags := 7\<rparr>)"
  by (simp_all add: rx_valid_def pkt_wf_def ex_frame_def max_size ESP_NOW_ADDR_LEN_def
      ESP_NOW_HEADER_LENGTH_def ESP_NOW_MAX_SIZE_RAW_def)

lemma ex_dev_wf: "dev_wf (ex_dev\<lparr>rx_pkt := p\<rparr>) \<longleftrightarrow> pkt_wf p"
  by (simp add: dev_wf_def ex_dev_def ESP_NOW_ADDR_LEN_def)

text \<open>Claim C2. After every call of \<^verbatim>\<open>_recv\<close> the length of the receive packet is to be 0.
  The code resets it at line 176 only, on the path that returns a chain; the exits at
  lines 146 and 158 return without the reset that the comment at line 119 makes the
  duty of this function. With a frame of length 11 in the receive packet and a packet
  buffer that cannot hold the payload, the call returns the null pointer and the length
  is still 11.\<close>

theorem recv_alloc_failure_keeps_len:
  "esp_now_recv ex_plat (ex_drv_recv 11 ex_frame) (\<lambda>pb n. False) (\<lambda>_. 0) 3 ex_dev [] =
     Inr \<lparr>result = None, dev = ex_dev\<lparr>rx_pkt := ex_frame\<rparr>, pktbuf = []\<rparr> \<and>
   len (rx_pkt (ex_dev\<lparr>rx_pkt := ex_frame\<rparr>)) = 11"
  by (simp add: esp_now_recv_def ex_drv_recv_def add_payload_full) (simp add: ex_frame_def)

text \<open>Claim C7. If the driver has delivered a valid frame, the payload segment is
  allocated and the allocation of the header segment then fails, \<^verbatim>\<open>_recv\<close> returns the
  null pointer and the packet buffer holds exactly the segments it held before the call:
  the payload segment has been released.\<close>

theorem recv_hdr_alloc_fails:
  assumes "drv_recv esp_now0 = (recv_res, esp_now)" and "0 < recv_res"
    and "rx_valid (rx_pkt esp_now)"
    and "fits pb (recv_pkt_len (len (rx_pkt esp_now)))"
    and "\<not> fits ((select_nettype plat (buf_hdr_flags (rx_pkt esp_now)),
                    recv_pkt_len (len (rx_pkt esp_now))) # pb)
                 (sizeof_gnrc_netif_hdr plat + 2 * ESP_NOW_ADDR_LEN)"
  shows "esp_now_recv plat drv_recv fits heap pid esp_now0 pb =
           Inr \<lparr>result = None, dev = esp_now, pktbuf = pb\<rparr>"
  using assms(2,5)
  by (simp add: esp_now_recv_def assms(1) add_payload_ok [of "rx_pkt esp_now" fits pb, OF assms(3,4)] pktbuf_alloc_def
      gnrc_pktbuf_release_def payload_snip_size [OF assms(3)])

theorem recv_hdr_alloc_fails_witness:
  "esp_now_recv ex_plat (ex_drv_recv 11 ex_frame) (\<lambda>pb n. length pb < 2) (\<lambda>_. 0) 3 ex_dev
     [(GNRC_NETTYPE_UNDEF, 5)] =
     Inr \<lparr>result = None, dev = ex_dev\<lparr>rx_pkt := ex_frame\<rparr>,
          pktbuf = [(GNRC_NETTYPE_UNDEF, 5)]\<rparr>"
  using recv_hdr_alloc_fails [of "ex_drv_recv 11 ex_frame" ex_dev 11 "ex_dev\<lparr>rx_pkt := ex_frame\<rparr>"
      "\<lambda>pb n. length pb < 2" "[(GNRC_NETTYPE_UNDEF, 5)]" ex_plat "\<lambda>_. 0" 3] ex_frame_valid(1)
  by (simp add: ex_drv_recv_def)

text \<open>Claim C8. If the driver has delivered a valid frame whose tag the switch of line 130
  does not list (any tag but 1, or any tag at all without the 6LoWPAN module) and both
  allocations succeed, \<^verbatim>\<open>_recv\<close> returns a chain whose payload segment has the type
  \<^verbatim>\<open>GNRC_NETTYPE_UNDEF\<close>.\<close>

theorem recv_unknown_tag:
  assumes "drv_recv esp_now0 = (recv_res, esp_now)" and "0 < recv_res"
    and "dev_wf esp_now" and "rx_valid (rx_pkt esp_now)"
    and "\<not> (MODULE_GNRC_SIXLOWPAN plat \<and> buf_hdr_flags (rx_pkt esp_now) = 1)"
    and "fits pb (recv_pkt_len (len (rx_pkt esp_now)))"
    and "fits ((GNRC_NETTYPE_UNDEF, recv_pkt_len (len (rx_pkt esp_now))) # pb)
              (sizeof_gnrc_netif_hdr plat + 2 * ESP_NOW_ADDR_LEN)"
  shows "\<exists>r c. esp_now_recv plat drv_recv fits heap pid esp_now0 pb = Inr r \<and>
               result r = Some c \<and> snip_type (in_pkt c) = GNRC_NETTYPE_UNDEF"
proof -
  from assms(5) have t: "select_nettype plat (buf_hdr_flags (rx_pkt esp_now)) = GNRC_NETTYPE_UNDEF"
    by (auto simp: select_nettype_def)
  show ?thesis
    using assms(2,7)
    by (simp add: esp_now_recv_def assms(1) t add_payload_ok [of "rx_pkt esp_now" fits pb, OF assms(4,6)] pktbuf_alloc_def
        build_netif_hdr_ok [OF assms(3)])
qed

theorem recv_unknown_tag_witness:
  "\<exists>r c. esp_now_recv ex_plat (ex_drv_recv 11 (ex_frame\<lparr>buf_hdr_flags := 7\<rparr>)) (\<lambda>pb n. True)
            (\<lambda>_. 0) 3 ex_dev [] = Inr r \<and>
         result r = Some c \<and> snip_type (in_pkt c) = GNRC_NETTYPE_UNDEF"
  using recv_unknown_tag [of "ex_drv_recv 11 (ex_frame\<lparr>buf_hdr_flags := 7\<rparr>)" ex_dev 11
      "ex_dev\<lparr>rx_pkt := ex_frame\<lparr>buf_hdr_flags := 7\<rparr>\<rparr>" ex_plat "\<lambda>pb n. True" "[]" "\<lambda>_. 0" 3]
    ex_frame_valid(2)
  by (simp add: ex_drv_recv_def ex_dev_wf rx_valid_def)

subsection \<open>Sending and receiving\<close>

lemma spec_frame_valid:
  assumes "payload_total (pkt_next pkt) \<le> ESP_NOW_MAX_SIZE" and "length A = ESP_NOW_ADDR_LEN"
  shows "rx_valid ((spec_frame plat stack pkt t)\<lparr>mac := A\<rparr>)"
    and "recv_pkt_len (len ((spec_frame plat stack pkt t)\<lparr>mac := A\<rparr>)) =
           payload_total (pkt_next pkt)"
proof -
  let ?f = "(spec_frame plat stack pkt t)\<lparr>mac := A\<rparr>"
  have l: "unat (len ?f) = 1 + payload_total (pkt_next pkt)"
    using unat_frame_len [OF assms(1)] by (simp add: spec_frame_def)
  have d: "length (buf_data ?f) = ESP_NOW_MAX_SIZE"
    using assms(1) by (simp add: spec_frame_def length_payload_bytes)
  from l d assms show "rx_valid ?f"
    by (simp add: rx_valid_def pkt_wf_def ESP_NOW_HEADER_LENGTH_def max_size
        ESP_NOW_MAX_SIZE_RAW_def)
  from l show "recv_pkt_len (len ?f) = payload_total (pkt_next pkt)"
    by (simp add: recv_pkt_len_pos ESP_NOW_HEADER_LENGTH_def)
qed

text \<open>Claim C4. Round trip: let a chain with well-formed metadata and a payload within the
  capacity be sent, and let the driver's \<^verbatim>\<open>recv\<close> deliver the frame that the driver's
  \<^verbatim>\<open>send\<close> was given, with the sender address \<open>A\<close> in its address field. If both
  allocations succeed, \<^verbatim>\<open>_recv\<close> returns a chain whose payload segment holds the
  concatenation of the payload segments that were sent, with the type that the tag stands
  for, and whose metadata segment has the source address \<open>A\<close>.\<close>

theorem send_recv_roundtrip:
  assumes "metadata_ok plat pkt" and "pkt_next pkt = first # rest"
    and "payload_total (pkt_next pkt) \<le> ESP_NOW_MAX_SIZE"
    and "send_call (esp_now_send plat drv_send stack pkt) = Some frame"
    and "drv_recv esp_now0 = (recv_res, esp_now)" and "0 < recv_res"
    and "rx_pkt esp_now = frame\<lparr>mac := A\<rparr>"
    and "length A = ESP_NOW_ADDR_LEN" and "length (addr esp_now) = ESP_NOW_ADDR_LEN"
    and "fits pb (payload_total (pkt_next pkt))"
    and "fits ((select_nettype plat (buf_hdr_flags frame), payload_total (pkt_next pkt)) # pb)
              (sizeof_gnrc_netif_hdr plat + 2 * ESP_NOW_ADDR_LEN)"
  shows "\<exists>r c. esp_now_recv plat drv_recv fits heap pid esp_now0 pb = Inr r \<and>
               result r = Some c \<and>
               snip_data (in_pkt c) = payload_bytes (pkt_next pkt) \<and>
               snip_type (in_pkt c) =
                 select_nettype plat (select_flags plat (snip_type first)) \<and>
               in_next_type c = GNRC_NETTYPE_NETIF \<and>
               gnrc_netif_hdr_get_src_addr (in_next_hdr c) = A"
proof -
  let ?n = "payload_total (pkt_next pkt)"
  let ?f = "spec_frame plat stack pkt (snip_type first)"
  from send_frame [OF assms(1-3), of drv_send stack] assms(4)
  have f: "frame = ?f" by (simp add: send_call_def)
  have rx: "rx_pkt esp_now = ?f\<lparr>mac := A\<rparr>" using assms(7) f by simp
  have v: "rx_valid (rx_pkt esp_now)" and n: "recv_pkt_len (len (rx_pkt esp_now)) = ?n"
    unfolding rx by (rule spec_frame_valid [OF assms(3,8)])+
  from v assms(9) have w: "dev_wf esp_now" by (simp add: dev_wf_def rx_valid_def)
  have fl: "buf_hdr_flags (rx_pkt esp_now) = select_flags plat (snip_type first)"
    "buf_hdr_flags frame = select_flags plat (snip_type first)"
    by (simp_all add: rx f spec_frame_def)
  have m: "mac (rx_pkt esp_now) = A" by (simp add: rx)
  have d: "take ?n (buf_data (rx_pkt esp_now)) = payload_bytes (pkt_next pkt)"
    by (simp add: rx spec_frame_def length_payload_bytes)
  have a: "gnrc_pktbuf_add fits pb (buf_data (rx_pkt esp_now)) ?n t =
           Inr (Some \<lparr>snip_type = t, snip_data = payload_bytes (pkt_next pkt)\<rparr>, (t, ?n) # pb)" for t
    using add_payload_ok [of "rx_pkt esp_now" fits pb t] v assms(10) by (simp add: n d)
  have s: "gnrc_netif_hdr_get_src_addr
             \<lparr>src_l2addr_len = 6, dst_l2addr_len = 6, if_pid = pid, flags = 0,
              hdr_addrs = A @ addr esp_now\<rparr> = A"
    using assms(8) by (simp add: gnrc_netif_hdr_get_src_addr_def ESP_NOW_ADDR_LEN_def)
  show ?thesis
    using assms(6,11) s
    by (simp add: esp_now_recv_def assms(5) n a fl pktbuf_alloc_def build_netif_hdr_ok [OF w] m)
qed

theorem send_recv_roundtrip_witness:
  "\<exists>frame r c.
     send_call (esp_now_send ex_plat (\<lambda>_. 0) (\<lambda>_. 0)
       (ex_pkt 0 6 [ex_seg GNRC_NETTYPE_SIXLOWPAN 10])) = Some frame \<and>
     esp_now_recv ex_plat (ex_drv_recv 11 (frame\<lparr>mac := [0x11, 0x22, 0x33, 0x44, 0x55, 0x66]\<rparr>))
       (\<lambda>pb n. True) (\<lambda>_. 0) 3 ex_dev [] = Inr r \<and>
     result r = Some c \<and>
     snip_data (in_pkt c) = [1, 2, 3, 4, 5, 6, 7, 8, 9, 10] \<and>
     snip_type (in_pkt c) = GNRC_NETTYPE_SIXLOWPAN \<and>
     in_next_type c = GNRC_NETTYPE_NETIF \<and>
     gnrc_netif_hdr_get_src_addr (in_next_hdr c) = [0x11, 0x22, 0x33, 0x44, 0x55, 0x66]"
proof -
  let ?seg = "ex_seg GNRC_NETTYPE_SIXLOWPAN 10"
  let ?pkt = "ex_pkt 0 6 [?seg]"
  let ?A = "[0x11, 0x22, 0x33, 0x44, 0x55, 0x66] :: u8 list"
  have h2: "pkt_next ?pkt = [?seg]" by (simp add: ex_pkt_def)
  have h3: "payload_total (pkt_next ?pkt) \<le> ESP_NOW_MAX_SIZE"
    by (simp add: ex_pkt_def max_size)
  from send_frame [OF ex_metadata_ok h2 h3, of "\<lambda>_. 0" "\<lambda>_. 0"]
  obtain frame where h4: "send_call (esp_now_send ex_plat (\<lambda>_. 0) (\<lambda>_. 0) ?pkt) = Some frame"
    by (simp add: send_call_def)
  have h5: "ex_drv_recv 11 (frame\<lparr>mac := ?A\<rparr>) ex_dev = (11, ex_dev\<lparr>rx_pkt := frame\<lparr>mac := ?A\<rparr>\<rparr>)"
    by (simp add: ex_drv_recv_def)
  have h8: "length ?A = ESP_NOW_ADDR_LEN" by (simp add: ESP_NOW_ADDR_LEN_def)
  have h9: "length (addr (ex_dev\<lparr>rx_pkt := frame\<lparr>mac := ?A\<rparr>\<rparr>)) = ESP_NOW_ADDR_LEN"
    by (simp add: ex_dev_def ESP_NOW_ADDR_LEN_def)
  have h6: "(0 :: int) < 11" by simp
  have h7: "rx_pkt (ex_dev\<lparr>rx_pkt := frame\<lparr>mac := ?A\<rparr>\<rparr>) = frame\<lparr>mac := ?A\<rparr>" by simp
  from send_recv_roundtrip [where plat = ex_plat and pkt = ?pkt and first = ?seg
      and rest = "[]" and drv_send = "\<lambda>_. 0" and stack = "\<lambda>_. 0" and frame = frame
      and drv_recv = "ex_drv_recv 11 (frame\<lparr>mac := ?A\<rparr>)" and ?esp_now0.0 = ex_dev
      and recv_res = 11 and esp_now = "ex_dev\<lparr>rx_pkt := frame\<lparr>mac := ?A\<rparr>\<rparr>" and A = ?A
      and fits = "\<lambda>pb n. True" and pb = "[]" and heap = "\<lambda>_. 0" and pid = 3,
      OF ex_metadata_ok h2 h3 h4 h5 h6 h7 h8 h9] h4
  show ?thesis
    by (simp add: ex_pkt_def ex_data_10 select_flags_def select_nettype_def ex_plat_def)
qed

end
